theory Spec2Isabelle
  imports Main "HOL-Library.Sublist"
begin

section \<open>The build script \<open>setup.py\<close> of PyCLP 0.2\<close>

text \<open>
  The repository holds one program, \<^verbatim>\<open>tags/pyclp_0_2/setup.py\<close>. It is a straight-line
  script with one loop: it finds the ECLiPSe installation directory (lines 34 to 43), maps
  \<^verbatim>\<open>platform.system()\<close> to an architecture tag (lines 45 to 51), joins two search paths
  (lines 53 and 54), builds the \<^verbatim>\<open>Extension\<close> object (lines 55 to 60) and hands it to
  \<^verbatim>\<open>setup\<close> (lines 62 to 73).

  Everything the script reads from its surroundings is a field of the record \<open>host\<close>;
  everything it does to them (asking for a line, asking the file system, printing) is an
  \<open>event\<close> of the trace it returns. Strings are Python 3 \<^verbatim>\<open>str\<close> values, written as
  \<open>char list\<close>; every character the script or the path functions compare with is ASCII.

  The script is read as Python 3: \<^verbatim>\<open>input\<close> writes its argument, reads one line and returns
  it without the newline, and raises \<^verbatim>\<open>EOFError\<close> at the end of the input. The imports of
  lines 26 to 31 are taken to succeed. What \<^verbatim>\<open>setup\<close> does with its arguments belongs to
  \<^verbatim>\<open>distutils\<close> and is not part of the model.
\<close>

subsection \<open>The host\<close>

text \<open>
  \<^item> \<open>environ\<close> is \<^verbatim>\<open>os.environ\<close>, a dictionary.
  \<^item> \<open>system\<close> is the string that \<^verbatim>\<open>platform.system()\<close> returns.
  \<^item> \<open>os_name\<close> says which module \<^verbatim>\<open>os.path\<close> is: \<^verbatim>\<open>posixpath\<close> or \<^verbatim>\<open>ntpath\<close>.
  \<^item> \<open>fs\<close> is the file system as \<^verbatim>\<open>os.path.exists\<close> sees it: the kind of entry a path
    string leads to, if it leads to one.
  \<^item> \<open>stdin\<close> is what the operator types: \<open>stdin h i\<close> is the line that the call number
    \<open>i\<close> of \<^verbatim>\<open>input\<close> returns, or \<open>None\<close> when that call meets the end of the input and
    raises \<^verbatim>\<open>EOFError\<close>. An operator who never stops typing is a function that is never
    \<open>None\<close>.
\<close>

datatype flavour = Posix | Nt

datatype node = File | Directory

record host =
  environ :: "string \<rightharpoonup> string"
  system :: string
  os_name :: flavour
  fs :: "string \<rightharpoonup> node"
  stdin :: "nat \<Rightarrow> string option"

text \<open>
  \<open>UnsupportedPlatform\<close> is the bare \<^verbatim>\<open>raise\<close> of line 51. No exception is active
  there, so Python 3 raises \<^verbatim>\<open>RuntimeError\<close>; nothing catches it and the script ends.
\<close>

datatype error = EOFError | UnsupportedPlatform

datatype event = Input string | Exists string | Print string

definition exists :: "host \<Rightarrow> string \<Rightarrow> bool" where
  \<comment> \<open>\<^verbatim>\<open>os.path.exists(path)\<close>\<close>
  "exists h path = (fs h path \<noteq> None)"

subsection \<open>Lines 34 to 43: the installation directory\<close>

definition prompt :: string where
  \<comment> \<open>the argument of \<^verbatim>\<open>input\<close>; the backslash at the end of line 36 continues the literal\<close>
  "prompt = ''ECLIPSEDIR environmental variable is not defined '' @ [CHR 0x0A] @
            ''please provide path to ECLiPSe installation: ''"

text \<open>
  \<^verbatim>\<open>
  while(1):
      eclipsedir=input('...')
      if os.path.exists(eclipsedir):
          break
      else:
          print('Invalid Path')
  \<close>
  The loop has no bound. \<open>while_1 h i tr\<close> is the loop about to make call number \<open>i\<close>
  of \<^verbatim>\<open>input\<close> after the events \<open>tr\<close>; the value \<open>None\<close> says that it runs forever.
\<close>

partial_function (option) while_1 ::
  "host \<Rightarrow> nat \<Rightarrow> event list \<Rightarrow> ((error + string) \<times> event list) option"
where
  "while_1 h i tr =
     (case stdin h i of
        None \<Rightarrow> Some (Inl EOFError, tr @ [Input prompt])
      | Some eclipsedir \<Rightarrow>
          if exists h eclipsedir
          then Some (Inr eclipsedir, tr @ [Input prompt, Exists eclipsedir])
          else while_1 h (Suc i)
                 (tr @ [Input prompt, Exists eclipsedir, Print ''Invalid Path'']))"

declare while_1.simps [code]

definition eclipsedir :: "host \<Rightarrow> ((error + string) \<times> event list) option" where
  "eclipsedir h =
     (case environ h ''ECLIPSEDIR'' of
        None \<Rightarrow> while_1 h 0 []
      | Some v \<Rightarrow> Some (Inr v, []))"

subsection \<open>Lines 45 to 51: the architecture tag\<close>

definition arch :: "string \<Rightarrow> (error + string) \<times> event list" where
  "arch platform_system =
     (if platform_system = ''Linux'' then (Inr ''i386_linux'', [])
      else if platform_system = ''Windows'' then (Inr ''i386_nt'', [])
      else (Inl UnsupportedPlatform, [Print ''Platform not supported'']))"

subsection \<open>\<^verbatim>\<open>os.path.join\<close>\<close>

text \<open>
  \<^verbatim>\<open>os.path.join\<close> belongs to the Python library, not to the repository. Both versions
  are modelled after CPython 3.11, the last release with the \<^verbatim>\<open>distutils\<close> that line 26
  imports.

  \<^verbatim>\<open>posixpath.join(a, *p)\<close>:
  \<^verbatim>\<open>
  path = a
  for b in p:
      if b.startswith('/'):               path = b
      elif not path or path.endswith('/'): path += b
      else:                                path += '/' + b
  return path
  \<close>
\<close>

definition posixpath_join_step :: "string \<Rightarrow> string \<Rightarrow> string" where
  "posixpath_join_step path b =
     (if b \<noteq> [] \<and> hd b = CHR ''/'' then b
      else if path = [] \<or> last path = CHR ''/'' then path @ b
      else path @ ''/'' @ b)"

definition posixpath_join :: "string \<Rightarrow> string list \<Rightarrow> string" where
  "posixpath_join a p = foldl posixpath_join_step a p"

text \<open>
  \<^verbatim>\<open>ntpath.splitdrive(p)\<close>, with \<open>sep\<close> the backslash:
  \<^verbatim>\<open>
  if len(p) >= 2:
      normp = p.replace('/', sep)
      if normp[0:2] == sep * 2:
          start = 8 if normp[:8].upper() == unc_prefix else 2
          index = normp.find(sep, start)
          if index == -1:  return p, p[:0]
          index2 = normp.find(sep, index + 1)
          if index2 == -1: return p, p[:0]
          return p[:index2], p[index2:]
      if normp[1:2] == ':':
          return p[:2], p[2:]
  return p[:0], p
  \<close>
  where \<open>unc_prefix\<close> is two backslashes, \<open>?\<close>, a backslash, \<open>UNC\<close> and a backslash.
\<close>

definition sep :: char where
  "sep = CHR 0x5C"

definition altsep :: char where
  "altsep = CHR ''/''"

definition colon :: char where
  "colon = CHR '':''"

definition seps :: "char set" where
  "seps = {sep, altsep}"

definition unc_prefix :: string where
  "unc_prefix = [sep, sep, CHR ''?'', sep, CHR ''U'', CHR ''N'', CHR ''C'', sep]"

definition upper :: "string \<Rightarrow> string" where
  \<comment> \<open>\<^verbatim>\<open>str.upper\<close> on the ASCII letters; \<^verbatim>\<open>splitdrive\<close> only compares the result with the
      ASCII string \<open>unc_prefix\<close>, and no other character has an ASCII letter of that
      string as its capital\<close>
  "upper s = map (\<lambda>c. if 97 \<le> (of_char c :: nat) \<and> (of_char c :: nat) \<le> 122
                        then char_of ((of_char c :: nat) - 32) else c) s"

definition lower :: "string \<Rightarrow> string" where
  \<comment> \<open>\<^verbatim>\<open>str.lower\<close> on the code points below 256: the ASCII capitals and the Latin-1
      capitals 192 to 222, the multiplication sign 215 left out\<close>
  "lower s = map (\<lambda>c. if (65 \<le> (of_char c :: nat) \<and> (of_char c :: nat) \<le> 90) \<or>
                           (192 \<le> (of_char c :: nat) \<and> (of_char c :: nat) \<le> 222 \<and>
                            (of_char c :: nat) \<noteq> 215)
                        then char_of ((of_char c :: nat) + 32) else c) s"

definition find :: "string \<Rightarrow> char \<Rightarrow> nat \<Rightarrow> nat option" where
  \<comment> \<open>\<^verbatim>\<open>s.find(c, start)\<close>, with \<open>None\<close> for \<open>-1\<close>\<close>
  "find s c start =
     (if dropWhile (\<lambda>x. x \<noteq> c) (drop start s) = [] then None
      else Some (start + length (takeWhile (\<lambda>x. x \<noteq> c) (drop start s))))"

definition splitdrive :: "string \<Rightarrow> string \<times> string" where
  "splitdrive p =
     (if length p \<ge> 2 then
        (let normp = map (\<lambda>c. if c = altsep then sep else c) p in
         if take 2 normp = [sep, sep] then
           (let start = (if upper (take 8 normp) = unc_prefix then 8 else 2) in
            case find normp sep start of
              None \<Rightarrow> (p, [])
            | Some index \<Rightarrow>
                (case find normp sep (index + 1) of
                   None \<Rightarrow> (p, [])
                 | Some index2 \<Rightarrow> (take index2 p, drop index2 p)))
         else if take 1 (drop 1 normp) = [colon] then (take 2 p, drop 2 p)
         else ([], p))
      else ([], p))"

text \<open>
  \<^verbatim>\<open>ntpath.join(path, *paths)\<close>:
  \<^verbatim>\<open>
  result_drive, result_path = splitdrive(path)
  for p in paths:
      p_drive, p_path = splitdrive(p)
      if p_path and p_path[0] in seps:
          if p_drive or not result_drive:
              result_drive = p_drive
          result_path = p_path
          continue
      elif p_drive and p_drive != result_drive:
          if p_drive.lower() != result_drive.lower():
              result_drive = p_drive
              result_path = p_path
              continue
          result_drive = p_drive
      if result_path and result_path[-1] not in seps:
          result_path = result_path + sep
      result_path = result_path + p_path
  if (result_path and result_path[0] not in seps and
      result_drive and result_drive[-1:] != colon):
      return result_drive + sep + result_path
  return result_drive + result_path
  \<close>
\<close>

definition ntpath_join_step :: "string \<times> string \<Rightarrow> string \<Rightarrow> string \<times> string" where
  "ntpath_join_step r p =
     (let result_drive = fst r; result_path = snd r;
          p_drive = fst (splitdrive p); p_path = snd (splitdrive p) in
      if p_path \<noteq> [] \<and> hd p_path \<in> seps then
        (if p_drive \<noteq> [] \<or> result_drive = [] then p_drive else result_drive, p_path)
      else if p_drive \<noteq> [] \<and> p_drive \<noteq> result_drive
              \<and> lower p_drive \<noteq> lower result_drive then
        (p_drive, p_path)
      else
        (if p_drive \<noteq> [] \<and> p_drive \<noteq> result_drive then p_drive else result_drive,
         (if result_path \<noteq> [] \<and> last result_path \<notin> seps
          then result_path @ [sep] else result_path) @ p_path))"

definition ntpath_join :: "string \<Rightarrow> string list \<Rightarrow> string" where
  "ntpath_join path paths =
     (let r = foldl ntpath_join_step (splitdrive path) paths;
          result_drive = fst r; result_path = snd r in
      if result_path \<noteq> [] \<and> hd result_path \<notin> seps
         \<and> result_drive \<noteq> [] \<and> last result_drive \<noteq> colon
      then result_drive @ [sep] @ result_path
      else result_drive @ result_path)"

definition os_path_join :: "flavour \<Rightarrow> string \<Rightarrow> string list \<Rightarrow> string" where
  "os_path_join os = (case os of Posix \<Rightarrow> posixpath_join | Nt \<Rightarrow> ntpath_join)"

subsection \<open>Lines 53 to 73: the paths, the extension module and the call of \<open>setup\<close>\<close>

definition eclise_include_path :: "flavour \<Rightarrow> string \<Rightarrow> string \<Rightarrow> string" where
  "eclise_include_path os dir a = os_path_join os dir [''include'', a]"

definition eclipse_lib_path :: "flavour \<Rightarrow> string \<Rightarrow> string \<Rightarrow> string" where
  "eclipse_lib_path os dir a = os_path_join os dir [''lib'', a]"

record extension =
  name :: string
  sources :: "string list"
  library_dirs :: "string list"
  libraries :: "string list"
  include_dirs :: "string list"

definition pyclp_module :: "flavour \<Rightarrow> string \<Rightarrow> string \<Rightarrow> extension" where
  "pyclp_module os dir a =
     \<lparr> name = ''pyclp.pyclp'',
       sources = [''src/pyclp/pyclp.pyx''],
       library_dirs = [eclipse_lib_path os dir a],
       libraries = [''eclipse''],
       include_dirs = [eclise_include_path os dir a, ''src/pyclp/''] \<rparr>"

text \<open>
  The keyword arguments of \<^verbatim>\<open>setup\<close>. The two dictionaries are association lists; the
  class \<^verbatim>\<open>build_ext\<close> of Cython is written by its name.
\<close>

record setup_call =
  dist_name :: string
  version :: string
  author :: string
  maintainer :: string
  author_email :: string
  url :: string
  description :: string
  license :: string
  cmdclass :: "(string \<times> string) list"
  ext_modules :: "extension list"
  package_dir :: "(string \<times> string) list"
  packages :: "string list"

definition distutils_setup :: "extension \<Rightarrow> setup_call" where
  \<comment> \<open>the call \<^verbatim>\<open>setup (name = ..., ...)\<close> of lines 62 to 73\<close>
  "distutils_setup m =
     \<lparr> dist_name = ''PyCLP'',
       version = ''0.2'',
       author = ''Oreste Bernardi'',
       maintainer = ''Oreste Bernardi'',
       author_email = ''<name>@<name>.eu  name=oreste'',
       url = ''pyclp.berlios.de'',
       description = ''Interface to ECLiPSe CLP'',
       license = ''Simplified BSD'',
       cmdclass = [(''build_ext'', ''Cython.Distutils.build_ext'')],
       ext_modules = [m],
       package_dir = [('''', ''src'')],
       packages = [''pyclp''] \<rparr>"

text \<open>
  The whole script: the statements in the order of the file. The result is \<open>None\<close> when
  the loop never ends, otherwise the exception that ended the script or the call of
  \<^verbatim>\<open>setup\<close> it reached, with the events up to there.
\<close>

definition setup_py :: "host \<Rightarrow> ((error + setup_call) \<times> event list) option" where
  "setup_py h =
     (case eclipsedir h of
        None \<Rightarrow> None
      | Some (Inl e, tr) \<Rightarrow> Some (Inl e, tr)
      | Some (Inr dir, tr) \<Rightarrow>
          (case arch (system h) of
             (Inl e, tr') \<Rightarrow> Some (Inl e, tr @ tr')
           | (Inr a, tr') \<Rightarrow> Some (Inr (distutils_setup (pyclp_module (os_name h) dir a)), tr @ tr')))"


subsection \<open>Hosts and traces used in the statements\<close>

definition rejected :: "string list \<Rightarrow> event list" where
  \<comment> \<open>the events of the loop's rounds that end in \<^verbatim>\<open>print('Invalid Path')\<close>, one per path\<close>
  "rejected bad = concat (map (\<lambda>p. [Input prompt, Exists p, Print ''Invalid Path'']) bad)"

definition typed :: "string list \<Rightarrow> nat \<Rightarrow> string option" where
  \<comment> \<open>an operator who types these lines and then closes the input\<close>
  "typed xs i = (if i < length xs then Some (xs ! i) else None)"

definition host_C1 :: host where
  \<comment> \<open>the variable is set, the directory it names does not exist, the input is closed\<close>
  "host_C1 = \<lparr> environ = [''ECLIPSEDIR'' \<mapsto> ''/opt/eclipse''], system = ''Linux'',
               os_name = Posix, fs = Map.empty, stdin = typed [] \<rparr>"

definition host_C2 :: host where
  "host_C2 = \<lparr> environ = [''ECLIPSEDIR'' \<mapsto> ''/opt/eclipse''], system = ''Darwin'',
               os_name = Posix, fs = [''/opt/eclipse'' \<mapsto> Directory], stdin = typed [] \<rparr>"

definition host_C5 :: host where
  \<comment> \<open>the scenario of the specification: two lines typed, only the second exists\<close>
  "host_C5 = \<lparr> environ = Map.empty, system = ''Linux'', os_name = Posix,
               fs = [''/opt/eclipse'' \<mapsto> Directory],
               stdin = typed [''/nonexistent'', ''/opt/eclipse''] \<rparr>"

definition host_C4 :: host where
  "host_C4 = \<lparr> environ = [''ECLIPSEDIR'' \<mapsto> ''/opt/eclipse''], system = ''Linux'',
               os_name = Posix, fs = [''/opt/eclipse'' \<mapsto> Directory], stdin = typed [] \<rparr>"

definition host_C3 :: host where
  \<comment> \<open>the operator types an existing directory with its final slash\<close>
  "host_C3 = \<lparr> environ = Map.empty, system = ''Linux'', os_name = Posix,
               fs = [''/opt/eclipse/'' \<mapsto> Directory], stdin = typed [''/opt/eclipse/''] \<rparr>"

definition host_C3w :: host where
  "host_C3w = \<lparr> environ = [''ECLIPSEDIR'' \<mapsto> ''/opt/eclipse''], system = ''Linux'',
               os_name = Posix, fs = [''/opt/eclipse'' \<mapsto> Directory], stdin = typed [] \<rparr>"

definition host_C6 :: host where
  \<comment> \<open>the variable names a directory that does not exist\<close>
  "host_C6 = \<lparr> environ = [''ECLIPSEDIR'' \<mapsto> ''/nonexistent''], system = ''Linux'',
               os_name = Posix, fs = Map.empty, stdin = typed [] \<rparr>"

definition host_C6w :: host where
  "host_C6w = \<lparr> environ = Map.empty, system = ''Windows'', os_name = Nt,
                fs = [''C:/eclipse'' \<mapsto> Directory], stdin = typed [''C:/eclipse''] \<rparr>"

definition host_C7 :: host where
  \<comment> \<open>the scenario of the specification, with an operator who answers the prompt\<close>
  "host_C7 = \<lparr> environ = Map.empty, system = ''Darwin'', os_name = Posix,
               fs = [''/opt/eclipse'' \<mapsto> Directory], stdin = typed [''/opt/eclipse''] \<rparr>"

definition host_C7_closed :: host where
  \<comment> \<open>the same scenario with the input closed\<close>
  "host_C7_closed = \<lparr> environ = Map.empty, system = ''Darwin'', os_name = Posix,
               fs = [''/opt/eclipse'' \<mapsto> Directory], stdin = typed [] \<rparr>"

definition host_C8 :: host where
  \<comment> \<open>the same directory as \<open>host_C3w\<close>, typed by the operator after a mistake\<close>
  "host_C8 = \<lparr> environ = Map.empty, system = ''Linux'', os_name = Posix,
               fs = [''/opt/eclipse'' \<mapsto> Directory, ''/opt'' \<mapsto> Directory],
               stdin = typed [''/opt/eclips'', ''/opt/eclipse''] \<rparr>"

definition host_C8_env :: host where
  "host_C8_env = \<lparr> environ = [''ECLIPSEDIR'' \<mapsto> ''/opt/eclipse''], system = ''Linux'',
               os_name = Posix, fs = Map.empty, stdin = typed [] \<rparr>"

definition host_C9 :: host where
  \<comment> \<open>a Windows host with the variable set to the empty string\<close>
  "host_C9 = \<lparr> environ = [''ECLIPSEDIR'' \<mapsto> ''''], system = ''Windows'', os_name = Nt,
               fs = Map.empty, stdin = typed [] \<rparr>"

definition host_C9w :: host where
  "host_C9w = \<lparr> environ = [''ECLIPSEDIR'' \<mapsto> ''''], system = ''Linux'', os_name = Posix,
               fs = Map.empty, stdin = typed [] \<rparr>"

definition host_C10 :: host where
  \<comment> \<open>the operator types the relative name of a regular file; nothing else exists\<close>
  "host_C10 = \<lparr> environ = Map.empty, system = ''Linux'', os_name = Posix,
                fs = [''setup.py'' \<mapsto> File], stdin = typed [''setup.py''] \<rparr>"


text \<open>
  A path component that \<^verbatim>\<open>ntpath.join\<close> only ever appends: it has no drive, is not empty,
  and neither starts nor ends with a separator. The four components the script passes
  (\<^verbatim>\<open>'include'\<close>, \<^verbatim>\<open>'lib'\<close> and the two architecture tags) are of this kind.
\<close>

definition relative :: "string \<Rightarrow> bool" where
  "relative b = (splitdrive b = ([], b) \<and> b \<noteq> [] \<and> hd b \<notin> seps \<and> last b \<notin> seps)"


section \<open>The loop\<close>

text \<open>
  The loop after a run of rejected lines: it returns the first line that names an existing
  entry, or ends with \<^verbatim>\<open>EOFError\<close> when the input ends first.
\<close>

lemma while_1_step:
  "stdin h i = Some p \<Longrightarrow> \<not> exists h p \<Longrightarrow>
   while_1 h i tr = while_1 h (Suc i) (tr @ [Input prompt, Exists p, Print ''Invalid Path''])"
  by (subst while_1.simps) simp

lemma while_1_accepts:
  "\<forall>j<length bad. stdin h (i + j) = Some (bad ! j) \<Longrightarrow> \<forall>p\<in>set bad. \<not> exists h p \<Longrightarrow>
   stdin h (i + length bad) = Some good \<Longrightarrow> exists h good \<Longrightarrow>
   while_1 h i tr = Some (Inr good, tr @ rejected bad @ [Input prompt, Exists good])"
proof (induction bad arbitrary: i tr)
  case Nil
  then show ?case by (subst while_1.simps) (simp add: rejected_def)
next
  case (Cons p bad)
  from Cons.prems(1) have p: "stdin h i = Some p" by fastforce
  from Cons.prems(2) have np: "\<not> exists h p" by simp
  have "\<forall>j<length bad. stdin h (Suc i + j) = Some (bad ! j)"
    using Cons.prems(1) by fastforce
  moreover have "\<forall>q\<in>set bad. \<not> exists h q" using Cons.prems(2) by simp
  moreover have "stdin h (Suc i + length bad) = Some good" using Cons.prems(3) by simp
  ultimately have "while_1 h (Suc i) (tr @ [Input prompt, Exists p, Print ''Invalid Path'']) =
     Some (Inr good, (tr @ [Input prompt, Exists p, Print ''Invalid Path'']) @ rejected bad
                      @ [Input prompt, Exists good])"
    using Cons.prems(4) by (rule Cons.IH)
  with while_1_step [OF p np] show ?case by (simp add: rejected_def)
qed

lemma while_1_eof:
  "\<forall>j<length bad. stdin h (i + j) = Some (bad ! j) \<Longrightarrow> \<forall>p\<in>set bad. \<not> exists h p \<Longrightarrow>
   stdin h (i + length bad) = None \<Longrightarrow>
   while_1 h i tr = Some (Inl EOFError, tr @ rejected bad @ [Input prompt])"
proof (induction bad arbitrary: i tr)
  case Nil
  then show ?case by (subst while_1.simps) (simp add: rejected_def)
next
  case (Cons p bad)
  from Cons.prems(1) have p: "stdin h i = Some p" by fastforce
  from Cons.prems(2) have np: "\<not> exists h p" by simp
  have "\<forall>j<length bad. stdin h (Suc i + j) = Some (bad ! j)"
    using Cons.prems(1) by fastforce
  moreover have "\<forall>q\<in>set bad. \<not> exists h q" using Cons.prems(2) by simp
  moreover have "stdin h (Suc i + length bad) = None" using Cons.prems(3) by simp
  ultimately have "while_1 h (Suc i) (tr @ [Input prompt, Exists p, Print ''Invalid Path'']) =
     Some (Inl EOFError, (tr @ [Input prompt, Exists p, Print ''Invalid Path'']) @ rejected bad
                          @ [Input prompt])"
    by (rule Cons.IH)
  with while_1_step [OF p np] show ?case by (simp add: rejected_def)
qed

text \<open>
  Whatever a finished loop returns, it has asked the operator first, a directory it returns
  names an existing entry, and it never raises the exception of line 51.
\<close>

lemma while_1_Some:
  assumes "while_1 h i tr = Some y"
  shows "(\<exists>ev. snd y = tr @ Input prompt # ev) \<and> (\<forall>dir. fst y = Inr dir \<longrightarrow> exists h dir)
         \<and> fst y \<noteq> Inl UnsupportedPlatform"
proof (rule while_1.raw_induct [where P = "\<lambda>h i tr y.
         (\<exists>ev. snd y = tr @ Input prompt # ev) \<and> (\<forall>dir. fst y = Inr dir \<longrightarrow> exists h dir)
         \<and> fst y \<noteq> Inl UnsupportedPlatform", OF _ assms])
  fix loop :: "host \<Rightarrow> nat \<Rightarrow> event list \<Rightarrow> ((error + string) \<times> event list) option"
  fix h i tr y
  assume IH: "\<And>h i tr y. loop h i tr = Some y \<Longrightarrow>
         (\<exists>ev. snd y = tr @ Input prompt # ev) \<and> (\<forall>dir. fst y = Inr dir \<longrightarrow> exists h dir)
         \<and> fst y \<noteq> Inl UnsupportedPlatform"
  assume eq: "(case stdin h i of None \<Rightarrow> Some (Inl EOFError, tr @ [Input prompt])
      | Some d \<Rightarrow>
          if exists h d then Some (Inr d, tr @ [Input prompt, Exists d])
          else loop h (Suc i) (tr @ [Input prompt, Exists d, Print ''Invalid Path''])) = Some y"
  show "(\<exists>ev. snd y = tr @ Input prompt # ev) \<and> (\<forall>dir. fst y = Inr dir \<longrightarrow> exists h dir)
         \<and> fst y \<noteq> Inl UnsupportedPlatform"
  proof (cases "stdin h i")
    case None
    with eq have "y = (Inl EOFError, tr @ [Input prompt])" by simp
    then show ?thesis by simp
  next
    case (Some p)
    show ?thesis
    proof (cases "exists h p")
      case True
      with Some eq have "y = (Inr p, tr @ [Input prompt, Exists p])" by simp
      with True show ?thesis by simp
    next
      case False
      with Some eq
      have "loop h (Suc i) (tr @ [Input prompt, Exists p, Print ''Invalid Path'']) = Some y"
        by simp
      from IH [OF this] show ?thesis by (elim conjE exE) simp
    qed
  qed
qed

text \<open>The loop runs forever exactly on an operator who only ever types paths that do not exist.\<close>

lemma while_1_stops:
  assumes "while_1 h i tr = Some y"
  shows "\<exists>j\<ge>i. stdin h j = None \<or> (\<exists>p. stdin h j = Some p \<and> exists h p)"
proof (rule while_1.raw_induct [where P = "\<lambda>h i tr y.
         \<exists>j\<ge>i. stdin h j = None \<or> (\<exists>p. stdin h j = Some p \<and> exists h p)", OF _ assms])
  fix loop :: "host \<Rightarrow> nat \<Rightarrow> event list \<Rightarrow> ((error + string) \<times> event list) option"
  fix h i tr y
  assume IH: "\<And>h i tr y. loop h i tr = Some y \<Longrightarrow>
         \<exists>j\<ge>i. stdin h j = None \<or> (\<exists>p. stdin h j = Some p \<and> exists h p)"
  assume eq: "(case stdin h i of None \<Rightarrow> Some (Inl EOFError, tr @ [Input prompt])
      | Some d \<Rightarrow>
          if exists h d then Some (Inr d, tr @ [Input prompt, Exists d])
          else loop h (Suc i) (tr @ [Input prompt, Exists d, Print ''Invalid Path''])) = Some y"
  show "\<exists>j\<ge>i. stdin h j = None \<or> (\<exists>p. stdin h j = Some p \<and> exists h p)"
  proof (cases "stdin h i")
    case None
    then show ?thesis by blast
  next
    case (Some p)
    show ?thesis
    proof (cases "exists h p")
      case True
      with Some show ?thesis by blast
    next
      case False
      with Some eq
      have "loop h (Suc i) (tr @ [Input prompt, Exists p, Print ''Invalid Path'']) = Some y"
        by simp
      from IH [OF this] obtain j where j: "Suc i \<le> j"
        "stdin h j = None \<or> (\<exists>p. stdin h j = Some p \<and> exists h p)" by blast
      from j(1) have "i \<le> j" by simp
      with j(2) show ?thesis by blast
    qed
  qed
qed

lemma while_1_forever:
  assumes a: "\<forall>j\<ge>i. \<exists>p. stdin h j = Some p \<and> \<not> exists h p"
  shows "while_1 h i tr = None"
proof (cases "while_1 h i tr")
  case None
  then show ?thesis .
next
  case (Some y)
  from while_1_stops [OF this] obtain j where j: "i \<le> j"
    "stdin h j = None \<or> (\<exists>p. stdin h j = Some p \<and> exists h p)" by blast
  from a j(1) obtain p where "stdin h j = Some p" "\<not> exists h p" by blast
  with j(2) show ?thesis by simp
qed

lemma count_rejected: "count_list (rejected bad) (Print ''Invalid Path'') = length bad"
  by (induction bad) (simp_all add: rejected_def)


section \<open>Joining paths\<close>

subsection \<open>\<^verbatim>\<open>posixpath.join\<close> with two relative components\<close>

lemma posixpath_join_two:
  assumes "b \<noteq> []" "hd b \<noteq> CHR ''/''" "last b \<noteq> CHR ''/''" "a \<noteq> []" "hd a \<noteq> CHR ''/''"
  shows "posixpath_join d [b, a] =
           (if d = [] \<or> last d = CHR ''/'' then d else d @ ''/'') @ b @ ''/'' @ a"
  using assms by (simp add: posixpath_join_def posixpath_join_step_def)

lemma posixpath_join_two_prefix:
  assumes "b \<noteq> []" "hd b \<noteq> CHR ''/''" "last b \<noteq> CHR ''/''" "a \<noteq> []" "hd a \<noteq> CHR ''/''"
  shows "prefix d (posixpath_join d [b, a]) \<and> suffix a (posixpath_join d [b, a])"
  using assms by (simp add: posixpath_join_def posixpath_join_step_def prefix_def suffix_def)


subsection \<open>\<^verbatim>\<open>ntpath.splitdrive\<close>\<close>

lemma find_Some:
  assumes a: "find s c start = Some i"
  shows "i < length s \<and> s ! i = c"
proof -
  let ?r = "drop start s"
  let ?k = "length (takeWhile (\<lambda>x. x \<noteq> c) ?r)"
  from a have ne: "dropWhile (\<lambda>x. x \<noteq> c) ?r \<noteq> []"
    by (simp add: find_def split: if_splits)
  from a have i: "i = start + ?k"
    by (simp add: find_def split: if_splits)
  have "length (takeWhile (\<lambda>x. x \<noteq> c) ?r) + length (dropWhile (\<lambda>x. x \<noteq> c) ?r) = length ?r"
    by (simp only: length_append [symmetric] takeWhile_dropWhile_id)
  with ne have k: "?k < length ?r" by (cases "dropWhile (\<lambda>x. x \<noteq> c) ?r") simp_all
  then have "\<not> (?r ! ?k \<noteq> c)" by (rule nth_length_takeWhile)
  then have c: "?r ! ?k = c" by simp
  from k have l: "start + ?k < length s" by simp
  then have "?r ! ?k = s ! (start + ?k)" by simp
  with c l i show ?thesis by simp
qed

lemma splitdrive_append: "fst (splitdrive p) @ snd (splitdrive p) = p"
  by (simp add: splitdrive_def Let_def split: option.splits)

lemma splitdrive_Nil: "splitdrive [] = ([], [])"
  by (simp add: splitdrive_def)

lemma splitdrive_cases:
  "splitdrive p = (p, []) \<or>
   (\<exists>i<length p. p ! i \<in> seps \<and> splitdrive p = (take i p, drop i p)) \<or>
   (\<exists>x y r. p = x # y # r \<and> y = colon \<and> splitdrive p = ([x, y], r)) \<or>
   splitdrive p = ([], p)"
proof (cases "length p \<ge> 2")
  case False
  then show ?thesis by (simp add: splitdrive_def)
next
  case True
  then obtain x y r where p: "p = x # y # r"
    by (cases p; cases "tl p") auto
  let ?n = "map (\<lambda>c. if c = altsep then sep else c) p"
  show ?thesis
  proof (cases "take 2 ?n = [sep, sep]")
    case unc: True
    let ?start = "if upper (take 8 ?n) = unc_prefix then 8 else 2 :: nat"
    show ?thesis
    proof (cases "find ?n sep ?start")
      case None
      with True unc have "splitdrive p = (p, [])"
        by (simp add: splitdrive_def Let_def)
      then show ?thesis by simp
    next
      case (Some index)
      show ?thesis
      proof (cases "find ?n sep (index + 1)")
        case None
        with True unc Some have "splitdrive p = (p, [])"
          by (simp add: splitdrive_def Let_def)
        then show ?thesis by simp
      next
        case i2: (Some index2)
        from find_Some [OF i2] have l: "index2 < length p" and s: "?n ! index2 = sep"
          by simp_all
        from l s have "p ! index2 \<in> seps" by (auto simp: seps_def split: if_splits)
        moreover from True unc Some i2 have "splitdrive p = (take index2 p, drop index2 p)"
          by (simp add: splitdrive_def Let_def)
        ultimately show ?thesis using l by blast
      qed
    qed
  next
    case nunc: False
    show ?thesis
    proof (cases "take 1 (drop 1 ?n) = [colon]")
      case True
      with p have "y = colon" by (auto simp: colon_def sep_def altsep_def split: if_splits)
      moreover from True \<open>length p \<ge> 2\<close> nunc have "splitdrive p = (take 2 p, drop 2 p)"
        by (simp add: splitdrive_def Let_def)
      ultimately show ?thesis using p by simp
    next
      case False
      with \<open>length p \<ge> 2\<close> nunc have "splitdrive p = ([], p)"
        by (simp add: splitdrive_def Let_def)
      then show ?thesis by simp
    qed
  qed
qed


text \<open>
  After a drive that is not a drive letter (a UNC share), the rest of the path is empty or
  starts with a separator.
\<close>

lemma splitdrive_unc:
  assumes "splitdrive p = (rd, rp)" "rd \<noteq> []" "last rd \<noteq> colon" "rp \<noteq> []"
  shows "hd rp \<in> seps"
  using splitdrive_cases [of p] assms by (auto simp: hd_drop_conv_nth)


subsection \<open>\<^verbatim>\<open>ntpath.join\<close> with two relative components\<close>

lemma relative_names:
  "relative ''include''" "relative ''lib''" "relative ''i386_linux''" "relative ''i386_nt''"
  by (simp_all add: relative_def splitdrive_def Let_def seps_def sep_def altsep_def colon_def)

lemma ntpath_join_step_relative:
  assumes "relative b"
  shows "ntpath_join_step (rd, rp) b =
           (rd, (if rp \<noteq> [] \<and> last rp \<notin> seps then rp @ [sep] else rp) @ b)"
  using assms by (simp add: ntpath_join_step_def relative_def)

lemma ntpath_join_two:
  assumes b: "relative b" and a: "relative a"
  shows "ntpath_join d [b, a] =
     (let rd = fst (splitdrive d); rp = snd (splitdrive d);
          rp' = (if rp \<noteq> [] \<and> last rp \<notin> seps then rp @ [sep] else rp) @ b @ [sep] @ a
      in if hd rp' \<notin> seps \<and> rd \<noteq> [] \<and> last rd \<noteq> colon
         then rd @ [sep] @ rp' else rd @ rp')"
proof -
  obtain rd rp where s: "splitdrive d = (rd, rp)" by (cases "splitdrive d")
  let ?rp1 = "(if rp \<noteq> [] \<and> last rp \<notin> seps then rp @ [sep] else rp) @ b"
  from b have nb: "b \<noteq> []" "last b \<notin> seps" by (simp_all add: relative_def)
  have "foldl ntpath_join_step (splitdrive d) [b, a] =
          ntpath_join_step (ntpath_join_step (rd, rp) b) a" by (simp add: s)
  also have "\<dots> = ntpath_join_step (rd, ?rp1) a"
    by (simp only: ntpath_join_step_relative [OF b])
  also have "\<dots> = (rd, (if ?rp1 \<noteq> [] \<and> last ?rp1 \<notin> seps then ?rp1 @ [sep] else ?rp1) @ a)"
    by (rule ntpath_join_step_relative [OF a])
  also have "\<dots> = (rd, ?rp1 @ [sep] @ a)" using nb by simp
  finally have "foldl ntpath_join_step (splitdrive d) [b, a] = (rd, ?rp1 @ [sep] @ a)" .
  then show ?thesis using a nb s by (simp add: ntpath_join_def Let_def relative_def)
qed

lemma ntpath_join_two_prefix:
  assumes b: "relative b" and a: "relative a"
  shows "prefix d (ntpath_join d [b, a]) \<and> suffix a (ntpath_join d [b, a])"
proof -
  obtain rd rp where s: "splitdrive d = (rd, rp)" by (cases "splitdrive d")
  from splitdrive_append [of d] s have d: "d = rd @ rp" by simp
  let ?rp' = "(if rp \<noteq> [] \<and> last rp \<notin> seps then rp @ [sep] else rp) @ b @ [sep] @ a"
  have j: "ntpath_join d [b, a] =
     (if hd ?rp' \<notin> seps \<and> rd \<noteq> [] \<and> last rd \<noteq> colon then rd @ [sep] @ ?rp' else rd @ ?rp')"
    by (simp add: ntpath_join_two [OF b a] s Let_def)
  show ?thesis
  proof (cases "hd ?rp' \<notin> seps \<and> rd \<noteq> [] \<and> last rd \<noteq> colon")
    case False
    with j have "ntpath_join d [b, a] = rd @ ?rp'" by simp
    then show ?thesis by (simp add: d prefix_def suffix_def)
  next
    case True
    have "rp = []"
    proof (rule ccontr)
      assume n: "rp \<noteq> []"
      with True have "hd rp \<in> seps" by (intro splitdrive_unc [OF s]) simp_all
      moreover from n have "hd ?rp' = hd rp" by simp
      ultimately show False using True by simp
    qed
    with j True have "ntpath_join d [b, a] = rd @ [sep] @ b @ [sep] @ a" by simp
    with \<open>rp = []\<close> show ?thesis by (simp add: d prefix_def suffix_def)
  qed
qed

lemma ntpath_join_two_no_drive:
  assumes b: "relative b" and a: "relative a" and "splitdrive d = ([], d)"
  shows "ntpath_join d [b, a] =
           (if d \<noteq> [] \<and> last d \<notin> seps then d @ [sep] else d) @ b @ [sep] @ a"
  using assms(3) by (simp add: ntpath_join_two [OF b a] Let_def)


section \<open>The script\<close>

lemma arch_Inr: "fst (arch s) = Inr a \<Longrightarrow> a = ''i386_linux'' \<or> a = ''i386_nt''"
  by (auto simp: arch_def split: if_splits)

lemma arch_Inr_eq: "fst (arch s) = Inr a \<Longrightarrow> arch s = (Inr a, [])"
  by (auto simp: arch_def split: if_splits)

lemma arch_relative: "fst (arch s) = Inr a \<Longrightarrow> relative a"
  using arch_Inr [of s a] relative_names by auto

lemma arch_posix: "fst (arch s) = Inr a \<Longrightarrow> a \<noteq> [] \<and> hd a \<noteq> CHR ''/''"
  using arch_Inr [of s a] by auto

lemma setup_py_Inr:
  assumes "setup_py h = Some (Inr d, tr)"
  shows "\<exists>dir a. eclipsedir h = Some (Inr dir, tr) \<and> arch (system h) = (Inr a, [])
           \<and> d = distutils_setup (pyclp_module (os_name h) dir a)"
  using assms
  by (auto simp: setup_py_def arch_def split: option.splits sum.splits prod.splits if_splits)

lemma setup_py_emits:
  assumes "eclipsedir h = Some (Inr dir, tr)" and "fst (arch (system h)) = Inr a"
  shows "setup_py h = Some (Inr (distutils_setup (pyclp_module (os_name h) dir a)), tr)"
  using assms(1) arch_Inr_eq [OF assms(2)] by (simp add: setup_py_def)

lemma dirs_of_setup:
  "include_dirs (ext_modules (distutils_setup (pyclp_module os dir a)) ! 0) =
     [os_path_join os dir [''include'', a], ''src/pyclp/'']"
  "library_dirs (ext_modules (distutils_setup (pyclp_module os dir a)) ! 0) =
     [os_path_join os dir [''lib'', a]]"
  by (simp_all add: distutils_setup_def pyclp_module_def eclise_include_path_def
      eclipse_lib_path_def)

lemma eclipsedir_Some:
  assumes "eclipsedir h = Some (r, tr)"
  shows "(environ h ''ECLIPSEDIR'' = None \<longrightarrow>
            (\<exists>ev. tr = Input prompt # ev) \<and> (\<forall>dir. r = Inr dir \<longrightarrow> exists h dir)) \<and>
         (\<forall>v. environ h ''ECLIPSEDIR'' = Some v \<longrightarrow> r = Inr v \<and> tr = []) \<and>
         r \<noteq> Inl UnsupportedPlatform"
proof (cases "environ h ''ECLIPSEDIR''")
  case None
  with assms have "while_1 h 0 [] = Some (r, tr)" by (simp add: eclipsedir_def)
  from while_1_Some [OF this] None show ?thesis by simp
next
  case (Some v)
  with assms show ?thesis by (auto simp: eclipsedir_def)
qed


subsection \<open>The script on the hosts above\<close>

lemma eclipsedir_host_C3:
  "eclipsedir host_C3 = Some (Inr ''/opt/eclipse/'', [Input prompt, Exists ''/opt/eclipse/''])"
proof -
  have "while_1 host_C3 0 [] =
          Some (Inr ''/opt/eclipse/'', [] @ rejected [] @ [Input prompt, Exists ''/opt/eclipse/''])"
    by (rule while_1_accepts) (simp_all add: host_C3_def typed_def exists_def)
  then show ?thesis by (simp add: eclipsedir_def host_C3_def rejected_def)
qed

lemma eclipsedir_host_C3w: "eclipsedir host_C3w = Some (Inr ''/opt/eclipse'', [])"
  by (simp add: eclipsedir_def host_C3w_def)

lemma arch_host_C3w: "fst (arch (system host_C3w)) = Inr ''i386_linux''"
  by (simp add: arch_def host_C3w_def)

lemma setup_py_host_C4:
  "setup_py host_C4 =
     Some (Inr (distutils_setup (pyclp_module Posix ''/opt/eclipse'' ''i386_linux'')), [])"
  by (simp add: setup_py_def eclipsedir_def arch_def host_C4_def)

lemma setup_py_host_C6w:
  "setup_py host_C6w =
     Some (Inr (distutils_setup (pyclp_module Nt ''C:/eclipse'' ''i386_nt'')),
           [Input prompt, Exists ''C:/eclipse''])"
proof -
  have "while_1 host_C6w 0 [] =
          Some (Inr ''C:/eclipse'', [] @ rejected [] @ [Input prompt, Exists ''C:/eclipse''])"
    by (rule while_1_accepts) (simp_all add: host_C6w_def typed_def exists_def)
  then have "eclipsedir host_C6w = Some (Inr ''C:/eclipse'', [Input prompt, Exists ''C:/eclipse''])"
    by (simp add: eclipsedir_def host_C6w_def rejected_def)
  moreover have "fst (arch (system host_C6w)) = Inr ''i386_nt''"
    by (simp add: arch_def host_C6w_def)
  ultimately show ?thesis using setup_py_emits [of host_C6w] by (simp add: host_C6w_def)
qed

lemma eclipsedir_host_C7:
  "eclipsedir host_C7 = Some (Inr ''/opt/eclipse'', [Input prompt, Exists ''/opt/eclipse''])"
proof -
  have "while_1 host_C7 0 [] =
          Some (Inr ''/opt/eclipse'', [] @ rejected [] @ [Input prompt, Exists ''/opt/eclipse''])"
    by (rule while_1_accepts) (simp_all add: host_C7_def typed_def exists_def)
  then show ?thesis by (simp add: eclipsedir_def host_C7_def rejected_def)
qed

lemma eclipsedir_host_C7_closed:
  "eclipsedir host_C7_closed = Some (Inl EOFError, [Input prompt])"
proof -
  have "while_1 host_C7_closed 0 [] = Some (Inl EOFError, [] @ rejected [] @ [Input prompt])"
    by (rule while_1_eof) (simp_all add: host_C7_closed_def typed_def)
  then show ?thesis by (simp add: eclipsedir_def host_C7_closed_def rejected_def)
qed

lemma eclipsedir_host_C8:
  "eclipsedir host_C8 =
     Some (Inr ''/opt/eclipse'',
           [Input prompt, Exists ''/opt/eclips'', Print ''Invalid Path'',
            Input prompt, Exists ''/opt/eclipse''])"
proof -
  have "while_1 host_C8 0 [] =
          Some (Inr ''/opt/eclipse'',
                [] @ rejected [''/opt/eclips''] @ [Input prompt, Exists ''/opt/eclipse''])"
    by (rule while_1_accepts) (simp_all add: host_C8_def typed_def exists_def)
  then show ?thesis by (simp add: eclipsedir_def host_C8_def rejected_def)
qed


section \<open>The claims\<close>

text \<open>
  \<^bold>\<open>C1.\<close> Whenever \<^verbatim>\<open>ECLIPSEDIR\<close> is in the environment with a non-empty value, the
  installation directory is that value, unchanged. The trace is empty: the script made no
  call of \<^verbatim>\<open>os.path.exists\<close> and no call of \<^verbatim>\<open>input\<close>; and the result is the same on
  every file system and every input.
\<close>

theorem C1_environ_verbatim:
  assumes "environ h ''ECLIPSEDIR'' = Some v" and "v \<noteq> []"
  shows "eclipsedir h = Some (Inr v, []) \<and>
         (\<forall>f s. eclipsedir (h\<lparr>fs := f, stdin := s\<rparr>) = Some (Inr v, []))"
  using assms by (simp add: eclipsedir_def)

theorem C1_environ_verbatim_witness:
  "environ host_C1 ''ECLIPSEDIR'' = Some ''/opt/eclipse'' \<and> ''/opt/eclipse'' \<noteq> [] \<and>
   \<not> exists host_C1 ''/opt/eclipse'' \<and>
   eclipsedir host_C1 = Some (Inr ''/opt/eclipse'', [])"
proof -
  have e: "environ host_C1 ''ECLIPSEDIR'' = Some ''/opt/eclipse''"
    by (simp add: host_C1_def)
  have n: "''/opt/eclipse'' \<noteq> []" by simp
  have x: "\<not> exists host_C1 ''/opt/eclipse''" by (simp add: host_C1_def exists_def)
  from C1_environ_verbatim [OF e n] e x show ?thesis by simp
qed


text \<open>
  \<^bold>\<open>C2.\<close> The architecture tag is \<^verbatim>\<open>i386_linux\<close> for \<^verbatim>\<open>Linux\<close> and \<^verbatim>\<open>i386_nt\<close> for
  \<^verbatim>\<open>Windows\<close>. For every other string \<open>s\<close> lines 50 and 51 print and raise; on every
  host whose \<^verbatim>\<open>platform.system()\<close> is \<open>s\<close> the script never reaches \<^verbatim>\<open>setup\<close>, and once
  the installation directory is there the exception ends the script, the message being
  its last event.
\<close>

theorem C2_arch:
  assumes "s \<noteq> ''Linux''" and "s \<noteq> ''Windows''"
  shows "fst (arch ''Linux'') = Inr ''i386_linux'' \<and> fst (arch ''Windows'') = Inr ''i386_nt'' \<and>
         arch s = (Inl UnsupportedPlatform, [Print ''Platform not supported'']) \<and>
         (\<forall>h. system h = s \<longrightarrow>
            (\<forall>d tr. setup_py h \<noteq> Some (Inr d, tr)) \<and>
            (\<forall>dir tr. eclipsedir h = Some (Inr dir, tr) \<longrightarrow>
               setup_py h = Some (Inl UnsupportedPlatform, tr @ [Print ''Platform not supported''])))"
proof -
  have a: "arch s = (Inl UnsupportedPlatform, [Print ''Platform not supported''])"
    using assms by (simp add: arch_def)
  have "\<forall>d tr. setup_py h \<noteq> Some (Inr d, tr)" if "system h = s" for h
    using that a by (auto simp: setup_py_def split: option.splits sum.splits prod.splits)
  moreover have "setup_py h = Some (Inl UnsupportedPlatform, tr @ [Print ''Platform not supported''])"
    if "system h = s" "eclipsedir h = Some (Inr dir, tr)" for h dir tr
    using that a by (simp add: setup_py_def)
  ultimately show ?thesis using a by (simp add: arch_def)
qed

theorem C2_arch_witness:
  "''Darwin'' \<noteq> ''Linux'' \<and> ''Darwin'' \<noteq> ''Windows'' \<and> system host_C2 = ''Darwin'' \<and>
   arch ''Darwin'' = (Inl UnsupportedPlatform, [Print ''Platform not supported'']) \<and>
   eclipsedir host_C2 = Some (Inr ''/opt/eclipse'', []) \<and>
   setup_py host_C2 = Some (Inl UnsupportedPlatform, [Print ''Platform not supported''])"
proof -
  have l: "''Darwin'' \<noteq> ''Linux''" and w: "''Darwin'' \<noteq> ''Windows''" by simp_all
  have s: "system host_C2 = ''Darwin''" by (simp add: host_C2_def)
  have e: "eclipsedir host_C2 = Some (Inr ''/opt/eclipse'', [])"
    by (simp add: host_C2_def eclipsedir_def)
  from C2_arch [OF l w] s e show ?thesis by simp
qed


text \<open>
  \<^bold>\<open>C3, as the specification states it, fails.\<close> The operator types \<^verbatim>\<open>/opt/eclipse/\<close>,
  which exists, on a Linux host. \<^verbatim>\<open>os.path.join\<close> adds no second slash, so the first include
  directory is \<^verbatim>\<open>/opt/eclipse/include/i386_linux\<close> and not the concatenation
  \<^verbatim>\<open>/opt/eclipse//include/i386_linux\<close>; the same holds for the library directory.
\<close>

theorem C3_trailing_slash_counterexample:
  "eclipsedir host_C3 = Some (Inr ''/opt/eclipse/'', [Input prompt, Exists ''/opt/eclipse/'']) \<and>
   exists host_C3 ''/opt/eclipse/'' \<and>
   fst (arch (system host_C3)) = Inr ''i386_linux'' \<and>
   setup_py host_C3 =
     Some (Inr (distutils_setup (pyclp_module Posix ''/opt/eclipse/'' ''i386_linux'')),
           [Input prompt, Exists ''/opt/eclipse/'']) \<and>
   include_dirs (pyclp_module Posix ''/opt/eclipse/'' ''i386_linux'') ! 0
     = ''/opt/eclipse/include/i386_linux'' \<and>
   include_dirs (pyclp_module Posix ''/opt/eclipse/'' ''i386_linux'') ! 0
     \<noteq> ''/opt/eclipse/'' @ ''/include/'' @ ''i386_linux'' \<and>
   library_dirs (pyclp_module Posix ''/opt/eclipse/'' ''i386_linux'') ! 0
     = ''/opt/eclipse/lib/i386_linux'' \<and>
   library_dirs (pyclp_module Posix ''/opt/eclipse/'' ''i386_linux'') ! 0
     \<noteq> ''/opt/eclipse/'' @ ''/lib/'' @ ''i386_linux''"
proof -
  have x: "exists host_C3 ''/opt/eclipse/''" by (simp add: host_C3_def exists_def)
  have a: "fst (arch (system host_C3)) = Inr ''i386_linux''"
    by (simp add: host_C3_def arch_def)
  have s: "setup_py host_C3 =
     Some (Inr (distutils_setup (pyclp_module Posix ''/opt/eclipse/'' ''i386_linux'')),
           [Input prompt, Exists ''/opt/eclipse/''])"
    using setup_py_emits [OF eclipsedir_host_C3 a] by (simp add: host_C3_def)
  have i: "include_dirs (pyclp_module Posix ''/opt/eclipse/'' ''i386_linux'') ! 0
     = ''/opt/eclipse/include/i386_linux''"
    by (simp add: pyclp_module_def eclise_include_path_def os_path_join_def
        posixpath_join_def posixpath_join_step_def)
  have l: "library_dirs (pyclp_module Posix ''/opt/eclipse/'' ''i386_linux'') ! 0
     = ''/opt/eclipse/lib/i386_linux''"
    by (simp add: pyclp_module_def eclipse_lib_path_def os_path_join_def
        posixpath_join_def posixpath_join_step_def)
  show ?thesis by (simp only: eclipsedir_host_C3 x a s i l) simp
qed


text \<open>
  \<^bold>\<open>C3, amended.\<close> For every installation directory the script has found and every
  architecture tag it has resolved, the first include directory is
  \<^verbatim>\<open>os.path.join(root, 'include', arch)\<close> and the first library directory is
  \<^verbatim>\<open>os.path.join(root, 'lib', arch)\<close>. With \<^verbatim>\<open>posixpath\<close> these are \<open>root + "/include/" + arch\<close>
  and \<open>root + "/lib/" + arch\<close> when the root is not empty and does not end with a slash.
  With \<^verbatim>\<open>ntpath\<close> the separator is the backslash, for a root without drive that is not
  empty and does not end with a separator.
\<close>

theorem C3_joined_paths:
  assumes "eclipsedir h = Some (Inr dir, tr)" and "fst (arch (system h)) = Inr a"
  shows "\<exists>d. setup_py h = Some (Inr d, tr) \<and>
           include_dirs (ext_modules d ! 0) ! 0 = os_path_join (os_name h) dir [''include'', a] \<and>
           library_dirs (ext_modules d ! 0) ! 0 = os_path_join (os_name h) dir [''lib'', a] \<and>
           (os_name h = Posix \<and> dir \<noteq> [] \<and> last dir \<noteq> CHR ''/'' \<longrightarrow>
              include_dirs (ext_modules d ! 0) ! 0 = dir @ ''/include/'' @ a \<and>
              library_dirs (ext_modules d ! 0) ! 0 = dir @ ''/lib/'' @ a) \<and>
           (os_name h = Nt \<and> splitdrive dir = ([], dir) \<and> dir \<noteq> [] \<and> last dir \<notin> seps \<longrightarrow>
              include_dirs (ext_modules d ! 0) ! 0 = dir @ [sep] @ ''include'' @ [sep] @ a \<and>
              library_dirs (ext_modules d ! 0) ! 0 = dir @ [sep] @ ''lib'' @ [sep] @ a)"
proof -
  let ?d = "distutils_setup (pyclp_module (os_name h) dir a)"
  note ra = arch_relative [OF assms(2)] and pa = arch_posix [OF assms(2)]
  have e: "setup_py h = Some (Inr ?d, tr)" by (rule setup_py_emits [OF assms])
  have i: "include_dirs (ext_modules ?d ! 0) ! 0 = os_path_join (os_name h) dir [''include'', a]"
    and l: "library_dirs (ext_modules ?d ! 0) ! 0 = os_path_join (os_name h) dir [''lib'', a]"
    by (simp_all add: dirs_of_setup)
  have p: "os_name h = Posix \<and> dir \<noteq> [] \<and> last dir \<noteq> CHR ''/'' \<longrightarrow>
              include_dirs (ext_modules ?d ! 0) ! 0 = dir @ ''/include/'' @ a \<and>
              library_dirs (ext_modules ?d ! 0) ! 0 = dir @ ''/lib/'' @ a"
    using pa by (simp add: dirs_of_setup os_path_join_def posixpath_join_two)
  have n: "os_name h = Nt \<and> splitdrive dir = ([], dir) \<and> dir \<noteq> [] \<and> last dir \<notin> seps \<longrightarrow>
              include_dirs (ext_modules ?d ! 0) ! 0 = dir @ [sep] @ ''include'' @ [sep] @ a \<and>
              library_dirs (ext_modules ?d ! 0) ! 0 = dir @ [sep] @ ''lib'' @ [sep] @ a"
    using ra by (simp add: dirs_of_setup os_path_join_def ntpath_join_two_no_drive relative_names)
  from e i l p n show ?thesis by blast
qed

theorem C3_joined_paths_witness:
  "eclipsedir host_C3w = Some (Inr ''/opt/eclipse'', []) \<and>
   fst (arch (system host_C3w)) = Inr ''i386_linux'' \<and> os_name host_C3w = Posix \<and>
   (\<exists>d. setup_py host_C3w = Some (Inr d, []) \<and>
        include_dirs (ext_modules d ! 0) ! 0 = ''/opt/eclipse/include/i386_linux'' \<and>
        library_dirs (ext_modules d ! 0) ! 0 = ''/opt/eclipse/lib/i386_linux'')"
proof -
  have o: "os_name host_C3w = Posix" by (simp add: host_C3w_def)
  from C3_joined_paths [OF eclipsedir_host_C3w arch_host_C3w] o
  obtain d where "setup_py host_C3w = Some (Inr d, [])"
    "include_dirs (ext_modules d ! 0) ! 0 = ''/opt/eclipse'' @ ''/include/'' @ ''i386_linux''"
    "library_dirs (ext_modules d ! 0) ! 0 = ''/opt/eclipse'' @ ''/lib/'' @ ''i386_linux''"
    by auto
  then have "\<exists>d. setup_py host_C3w = Some (Inr d, []) \<and>
        include_dirs (ext_modules d ! 0) ! 0 = ''/opt/eclipse/include/i386_linux'' \<and>
        library_dirs (ext_modules d ! 0) ! 0 = ''/opt/eclipse/lib/i386_linux''"
    by simp
  with eclipsedir_host_C3w arch_host_C3w o show ?thesis by blast
qed


text \<open>
  \<^bold>\<open>C4.\<close> Every call of \<^verbatim>\<open>setup\<close> the script reaches has one extension module, named
  \<^verbatim>\<open>pyclp.pyclp\<close>, with the single source \<^verbatim>\<open>src/pyclp/pyclp.pyx\<close>, two include directories
  the second of which is \<^verbatim>\<open>src/pyclp/\<close>, the library list \<^verbatim>\<open>['eclipse']\<close>, the package
  directory \<^verbatim>\<open>{'': 'src'}\<close> and the package list \<^verbatim>\<open>['pyclp']\<close>.
\<close>

theorem C4_fixed_fields:
  assumes "setup_py h = Some (Inr d, tr)"
  shows "length (ext_modules d) = 1 \<and>
         name (ext_modules d ! 0) = ''pyclp.pyclp'' \<and>
         sources (ext_modules d ! 0) = [''src/pyclp/pyclp.pyx''] \<and>
         length (include_dirs (ext_modules d ! 0)) = 2 \<and>
         include_dirs (ext_modules d ! 0) ! 1 = ''src/pyclp/'' \<and>
         libraries (ext_modules d ! 0) = [''eclipse''] \<and>
         package_dir d = [('''', ''src'')] \<and> packages d = [''pyclp'']"
proof -
  from setup_py_Inr [OF assms] obtain dir a
    where "d = distutils_setup (pyclp_module (os_name h) dir a)" by blast
  then show ?thesis by (simp add: distutils_setup_def pyclp_module_def)
qed

theorem C4_fixed_fields_witness:
  "setup_py host_C4 =
     Some (Inr (distutils_setup (pyclp_module Posix ''/opt/eclipse'' ''i386_linux'')), []) \<and>
   ext_modules (distutils_setup (pyclp_module Posix ''/opt/eclipse'' ''i386_linux'')) =
     [\<lparr> name = ''pyclp.pyclp'', sources = [''src/pyclp/pyclp.pyx''],
        library_dirs = [''/opt/eclipse/lib/i386_linux''], libraries = [''eclipse''],
        include_dirs = [''/opt/eclipse/include/i386_linux'', ''src/pyclp/''] \<rparr>] \<and>
   name (ext_modules (distutils_setup (pyclp_module Posix ''/opt/eclipse'' ''i386_linux'')) ! 0)
     = ''pyclp.pyclp'' \<and>
   package_dir (distutils_setup (pyclp_module Posix ''/opt/eclipse'' ''i386_linux''))
     = [('''', ''src'')] \<and>
   packages (distutils_setup (pyclp_module Posix ''/opt/eclipse'' ''i386_linux'')) = [''pyclp'']"
proof -
  have "ext_modules (distutils_setup (pyclp_module Posix ''/opt/eclipse'' ''i386_linux'')) =
     [\<lparr> name = ''pyclp.pyclp'', sources = [''src/pyclp/pyclp.pyx''],
        library_dirs = [''/opt/eclipse/lib/i386_linux''], libraries = [''eclipse''],
        include_dirs = [''/opt/eclipse/include/i386_linux'', ''src/pyclp/''] \<rparr>]"
    by (simp add: distutils_setup_def pyclp_module_def eclipse_lib_path_def
        eclise_include_path_def os_path_join_def posixpath_join_def posixpath_join_step_def)
  with C4_fixed_fields [OF setup_py_host_C4] setup_py_host_C4 show ?thesis by simp
qed


text \<open>
  \<^bold>\<open>C5.\<close> Without \<^verbatim>\<open>ECLIPSEDIR\<close> in the environment, when the operator types the paths
  \<open>bad\<close>, none of which exists, and then a path \<open>good\<close> that exists, the loop returns
  \<open>good\<close>. Its trace has one round of prompt, test and \<^verbatim>\<open>Invalid Path\<close> for each path of
  \<open>bad\<close>, then the prompt and the test of \<open>good\<close>: the message is printed \<open>length bad\<close>
  times. The witness is the scenario of the specification.
\<close>

theorem C5_first_existing:
  assumes "environ h ''ECLIPSEDIR'' = None"
    and "\<forall>j<length bad. stdin h j = Some (bad ! j)"
    and "\<forall>p\<in>set bad. \<not> exists h p"
    and "stdin h (length bad) = Some good"
    and "exists h good"
  shows "eclipsedir h = Some (Inr good, rejected bad @ [Input prompt, Exists good]) \<and>
         count_list (rejected bad @ [Input prompt, Exists good]) (Print ''Invalid Path'')
           = length bad"
proof -
  have "while_1 h 0 [] = Some (Inr good, [] @ rejected bad @ [Input prompt, Exists good])"
    by (rule while_1_accepts) (use assms in simp_all)
  with assms(1) have "eclipsedir h = Some (Inr good, rejected bad @ [Input prompt, Exists good])"
    by (simp add: eclipsedir_def)
  then show ?thesis by (simp add: count_rejected)
qed

theorem C5_first_existing_witness:
  "environ host_C5 ''ECLIPSEDIR'' = None \<and>
   stdin host_C5 0 = Some ''/nonexistent'' \<and> \<not> exists host_C5 ''/nonexistent'' \<and>
   stdin host_C5 1 = Some ''/opt/eclipse'' \<and> exists host_C5 ''/opt/eclipse'' \<and>
   eclipsedir host_C5 =
     Some (Inr ''/opt/eclipse'',
           [Input prompt, Exists ''/nonexistent'', Print ''Invalid Path'',
            Input prompt, Exists ''/opt/eclipse'']) \<and>
   count_list [Input prompt, Exists ''/nonexistent'', Print ''Invalid Path'',
               Input prompt, Exists ''/opt/eclipse''] (Print ''Invalid Path'') = 1"
proof -
  have e: "environ host_C5 ''ECLIPSEDIR'' = None" by (simp add: host_C5_def)
  have b: "\<forall>j<length [''/nonexistent'']. stdin host_C5 j = Some ([''/nonexistent''] ! j)"
    by (simp add: host_C5_def typed_def)
  have n: "\<forall>p\<in>set [''/nonexistent'']. \<not> exists host_C5 p"
    by (simp add: host_C5_def exists_def)
  have g: "stdin host_C5 (length [''/nonexistent'']) = Some ''/opt/eclipse''"
    by (simp add: host_C5_def typed_def)
  have x: "exists host_C5 ''/opt/eclipse''" by (simp add: host_C5_def exists_def)
  from C5_first_existing [OF e b n g x] e b n g x show ?thesis
    by (simp add: rejected_def)
qed


text \<open>
  \<^bold>\<open>C6, as the specification states it, fails\<close>, in both halves. With
  \<^verbatim>\<open>ECLIPSEDIR=/nonexistent\<close> on a Linux host with an empty file system the script reaches
  \<^verbatim>\<open>setup\<close>: the second include directory, \<^verbatim>\<open>src/pyclp/\<close>, does not lie under the root,
  and the root, which the library directory refers to, was never tested and does not exist.
\<close>

theorem C6_counterexample:
  "setup_py host_C6 =
     Some (Inr (distutils_setup (pyclp_module Posix ''/nonexistent'' ''i386_linux'')), []) \<and>
   include_dirs (pyclp_module Posix ''/nonexistent'' ''i386_linux'')
     = [''/nonexistent/include/i386_linux'', ''src/pyclp/''] \<and>
   \<not> prefix ''/nonexistent'' (include_dirs (pyclp_module Posix ''/nonexistent'' ''i386_linux'') ! 1) \<and>
   library_dirs (pyclp_module Posix ''/nonexistent'' ''i386_linux'')
     = [''/nonexistent/lib/i386_linux''] \<and>
   \<not> exists host_C6 ''/nonexistent''"
proof -
  have s: "setup_py host_C6 =
     Some (Inr (distutils_setup (pyclp_module Posix ''/nonexistent'' ''i386_linux'')), [])"
    by (simp add: setup_py_def eclipsedir_def arch_def host_C6_def)
  have i: "include_dirs (pyclp_module Posix ''/nonexistent'' ''i386_linux'')
     = [''/nonexistent/include/i386_linux'', ''src/pyclp/'']"
    by (simp add: pyclp_module_def eclise_include_path_def os_path_join_def
        posixpath_join_def posixpath_join_step_def)
  have l: "library_dirs (pyclp_module Posix ''/nonexistent'' ''i386_linux'')
     = [''/nonexistent/lib/i386_linux'']"
    by (simp add: pyclp_module_def eclipse_lib_path_def os_path_join_def
        posixpath_join_def posixpath_join_step_def)
  have x: "\<not> exists host_C6 ''/nonexistent''" by (simp add: host_C6_def exists_def)
  show ?thesis by (simp only: s i l x) simp
qed


text \<open>
  \<^bold>\<open>C6, amended.\<close> In every call of \<^verbatim>\<open>setup\<close> the script reaches, the include directories
  are \<^verbatim>\<open>os.path.join(root, 'include', arch)\<close> followed by the fixed \<^verbatim>\<open>src/pyclp/\<close>, and the
  one library directory is \<^verbatim>\<open>os.path.join(root, 'lib', arch)\<close>. The two joined paths start
  with the root and end with the architecture tag, under \<^verbatim>\<open>posixpath\<close> and under
  \<^verbatim>\<open>ntpath\<close>. The root was tested with \<^verbatim>\<open>os.path.exists\<close> when the operator typed it; when
  it comes from \<^verbatim>\<open>ECLIPSEDIR\<close> it is the value of the variable, untested.
\<close>

theorem C6_directories:
  assumes "setup_py h = Some (Inr d, tr)"
  shows "\<exists>dir a. eclipsedir h = Some (Inr dir, tr) \<and> fst (arch (system h)) = Inr a \<and>
           include_dirs (ext_modules d ! 0) =
             [os_path_join (os_name h) dir [''include'', a], ''src/pyclp/''] \<and>
           library_dirs (ext_modules d ! 0) = [os_path_join (os_name h) dir [''lib'', a]] \<and>
           prefix dir (include_dirs (ext_modules d ! 0) ! 0) \<and>
           suffix a (include_dirs (ext_modules d ! 0) ! 0) \<and>
           prefix dir (library_dirs (ext_modules d ! 0) ! 0) \<and>
           suffix a (library_dirs (ext_modules d ! 0) ! 0) \<and>
           (environ h ''ECLIPSEDIR'' = None \<longrightarrow> exists h dir) \<and>
           (\<forall>v. environ h ''ECLIPSEDIR'' = Some v \<longrightarrow> dir = v)"
proof -
  from setup_py_Inr [OF assms] obtain dir a
    where e: "eclipsedir h = Some (Inr dir, tr)" and a: "arch (system h) = (Inr a, [])"
      and d: "d = distutils_setup (pyclp_module (os_name h) dir a)" by blast
  from a have fa: "fst (arch (system h)) = Inr a" by simp
  note ra = arch_relative [OF fa] and pa = arch_posix [OF fa]
  have i: "include_dirs (ext_modules d ! 0) =
             [os_path_join (os_name h) dir [''include'', a], ''src/pyclp/'']"
    and l: "library_dirs (ext_modules d ! 0) = [os_path_join (os_name h) dir [''lib'', a]]"
    by (simp_all add: d dirs_of_setup)
  have pi: "prefix dir (os_path_join (os_name h) dir [''include'', a]) \<and>
            suffix a (os_path_join (os_name h) dir [''include'', a])"
  proof (cases "os_name h")
    case Posix
    then show ?thesis using posixpath_join_two_prefix [of "''include''" a dir] pa
      by (simp add: os_path_join_def)
  next
    case Nt
    then show ?thesis using ntpath_join_two_prefix [OF relative_names(1) ra, of dir]
      by (simp add: os_path_join_def)
  qed
  have pl: "prefix dir (os_path_join (os_name h) dir [''lib'', a]) \<and>
            suffix a (os_path_join (os_name h) dir [''lib'', a])"
  proof (cases "os_name h")
    case Posix
    then show ?thesis using posixpath_join_two_prefix [of "''lib''" a dir] pa
      by (simp add: os_path_join_def)
  next
    case Nt
    then show ?thesis using ntpath_join_two_prefix [OF relative_names(2) ra, of dir]
      by (simp add: os_path_join_def)
  qed
  from eclipsedir_Some [OF e]
  have v: "(environ h ''ECLIPSEDIR'' = None \<longrightarrow> exists h dir) \<and>
           (\<forall>v. environ h ''ECLIPSEDIR'' = Some v \<longrightarrow> dir = v)" by simp
  from pi have pi': "prefix dir (include_dirs (ext_modules d ! 0) ! 0) \<and>
           suffix a (include_dirs (ext_modules d ! 0) ! 0)" by (simp add: i)
  from pl have pl': "prefix dir (library_dirs (ext_modules d ! 0) ! 0) \<and>
           suffix a (library_dirs (ext_modules d ! 0) ! 0)" by (simp add: l)
  show ?thesis
    by (rule exI [of _ dir], rule exI [of _ a]) (use e fa i l pi' pl' v in simp)
qed

theorem C6_directories_witness:
  "setup_py host_C6w =
     Some (Inr (distutils_setup (pyclp_module Nt ''C:/eclipse'' ''i386_nt'')),
           [Input prompt, Exists ''C:/eclipse'']) \<and>
   environ host_C6w ''ECLIPSEDIR'' = None \<and>
   (\<exists>dir a. eclipsedir host_C6w = Some (Inr dir, [Input prompt, Exists ''C:/eclipse'']) \<and>
      fst (arch (system host_C6w)) = Inr a \<and> exists host_C6w dir \<and>
      prefix dir (include_dirs (ext_modules
         (distutils_setup (pyclp_module Nt ''C:/eclipse'' ''i386_nt'')) ! 0) ! 0) \<and>
      prefix dir (library_dirs (ext_modules
         (distutils_setup (pyclp_module Nt ''C:/eclipse'' ''i386_nt'')) ! 0) ! 0))"
proof -
  have e: "environ host_C6w ''ECLIPSEDIR'' = None" by (simp add: host_C6w_def)
  from C6_directories [OF setup_py_host_C6w] e
  have "\<exists>dir a. eclipsedir host_C6w = Some (Inr dir, [Input prompt, Exists ''C:/eclipse'']) \<and>
      fst (arch (system host_C6w)) = Inr a \<and> exists host_C6w dir \<and>
      prefix dir (include_dirs (ext_modules
         (distutils_setup (pyclp_module Nt ''C:/eclipse'' ''i386_nt'')) ! 0) ! 0) \<and>
      prefix dir (library_dirs (ext_modules
         (distutils_setup (pyclp_module Nt ''C:/eclipse'' ''i386_nt'')) ! 0) ! 0)"
    by blast
  with setup_py_host_C6w e show ?thesis by blast
qed


text \<open>
  \<^bold>\<open>C7, as the specification states it, fails.\<close> With an empty environment on
  \<^verbatim>\<open>Darwin\<close> the script asks for the installation directory first. When the operator
  answers with an existing path, the exception of line 51 comes after the prompt and the
  test; when the input is closed, the script ends with \<^verbatim>\<open>EOFError\<close> and never looks at
  the platform.
\<close>

theorem C7_prompt_first_counterexample:
  "environ host_C7 = Map.empty \<and> system host_C7 = ''Darwin'' \<and>
   setup_py host_C7 =
     Some (Inl UnsupportedPlatform,
           [Input prompt, Exists ''/opt/eclipse'', Print ''Platform not supported'']) \<and>
   environ host_C7_closed = Map.empty \<and> system host_C7_closed = ''Darwin'' \<and>
   setup_py host_C7_closed = Some (Inl EOFError, [Input prompt])"
proof -
  have 1: "environ host_C7 = Map.empty" "system host_C7 = ''Darwin''"
    by (simp_all add: host_C7_def)
  have 2: "environ host_C7_closed = Map.empty" "system host_C7_closed = ''Darwin''"
    by (simp_all add: host_C7_closed_def)
  have 3: "setup_py host_C7 =
     Some (Inl UnsupportedPlatform,
           [Input prompt, Exists ''/opt/eclipse'', Print ''Platform not supported''])"
    by (simp add: setup_py_def eclipsedir_host_C7 1 arch_def)
  have 4: "setup_py host_C7_closed = Some (Inl EOFError, [Input prompt])"
    by (simp add: setup_py_def eclipsedir_host_C7_closed)
  from 1 2 3 4 show ?thesis by simp
qed


text \<open>
  \<^bold>\<open>C7, amended.\<close> With \<^verbatim>\<open>ECLIPSEDIR\<close> absent and the platform \<^verbatim>\<open>Darwin\<close>, every run that
  ends starts with the prompt and ends with an exception. It ends with the exception of
  line 51 only after the loop has returned an existing path, and it does so whenever the
  operator types such a path after any number of paths that do not exist. The result of
  lines 45 to 51 is the same for every environment, file system and input. When the input
  ends after any number of paths that do not exist, the script ends with \<^verbatim>\<open>EOFError\<close>
  right after the last prompt; when the operator types such paths for ever, the script
  never ends. The witness runs both the operator who answers and the closed input.
\<close>

theorem C7_root_first:
  assumes "environ h ''ECLIPSEDIR'' = None" and "system h = ''Darwin''"
  shows "(\<forall>r tr. setup_py h = Some (r, tr) \<longrightarrow>
            (\<exists>ev. tr = Input prompt # ev) \<and> (r = Inl UnsupportedPlatform \<or> r = Inl EOFError)) \<and>
         (\<forall>tr. setup_py h = Some (Inl UnsupportedPlatform, tr) \<longrightarrow>
            (\<exists>dir tr'. eclipsedir h = Some (Inr dir, tr') \<and> exists h dir \<and>
                       tr = tr' @ [Print ''Platform not supported''])) \<and>
         (\<forall>bad good. (\<forall>j<length bad. stdin h j = Some (bad ! j)) \<and>
            (\<forall>p\<in>set bad. \<not> exists h p) \<and> stdin h (length bad) = Some good \<and> exists h good \<longrightarrow>
            setup_py h = Some (Inl UnsupportedPlatform,
              rejected bad @ [Input prompt, Exists good, Print ''Platform not supported''])) \<and>
         (\<forall>e f s. arch (system (h\<lparr>environ := e, fs := f, stdin := s\<rparr>)) =
            (Inl UnsupportedPlatform, [Print ''Platform not supported''])) \<and>
         (\<forall>bad. (\<forall>j<length bad. stdin h j = Some (bad ! j)) \<and>
            (\<forall>p\<in>set bad. \<not> exists h p) \<and> stdin h (length bad) = None \<longrightarrow>
            setup_py h = Some (Inl EOFError, rejected bad @ [Input prompt])) \<and>
         ((\<forall>j. \<exists>p. stdin h j = Some p \<and> \<not> exists h p) \<longrightarrow> setup_py h = None)"
proof -
  have a: "arch (system h) = (Inl UnsupportedPlatform, [Print ''Platform not supported''])"
    by (simp add: assms(2) arch_def)
  have s: "setup_py h =
     (case eclipsedir h of None \<Rightarrow> None
      | Some (Inl e, tr) \<Rightarrow> Some (Inl e, tr)
      | Some (Inr dir, tr) \<Rightarrow>
          Some (Inl UnsupportedPlatform, tr @ [Print ''Platform not supported'']))"
    by (simp add: setup_py_def a split: option.splits sum.splits prod.splits)
  have 1: "(\<exists>ev. tr = Input prompt # ev) \<and> (r = Inl UnsupportedPlatform \<or> r = Inl EOFError)"
    if "setup_py h = Some (r, tr)" for r tr
  proof (cases "eclipsedir h")
    case None
    with that s show ?thesis by simp
  next
    case (Some y)
    obtain r' tr' where y: "y = (r', tr')" by (cases y)
    from eclipsedir_Some [of h r' tr'] Some y assms(1)
    obtain ev where ev: "tr' = Input prompt # ev" by auto
    show ?thesis
    proof (cases r')
      case (Inl e)
      with that s Some y ev show ?thesis by (cases e) auto
    next
      case (Inr dir)
      with that s Some y ev show ?thesis by auto
    qed
  qed
  have 2: "\<exists>dir tr'. eclipsedir h = Some (Inr dir, tr') \<and> exists h dir \<and>
                       tr = tr' @ [Print ''Platform not supported'']"
    if "setup_py h = Some (Inl UnsupportedPlatform, tr)" for tr
  proof (cases "eclipsedir h")
    case None
    with that s show ?thesis by simp
  next
    case (Some y)
    obtain r' tr' where y: "y = (r', tr')" by (cases y)
    from eclipsedir_Some [of h r' tr'] Some y assms(1)
    have x: "\<forall>dir. r' = Inr dir \<longrightarrow> exists h dir" and n: "r' \<noteq> Inl UnsupportedPlatform"
      by auto
    show ?thesis
    proof (cases r')
      case (Inl e)
      with that s Some y n show ?thesis by simp
    next
      case (Inr dir)
      with that s Some y x show ?thesis by auto
    qed
  qed
  have 3: "setup_py h = Some (Inl UnsupportedPlatform,
              rejected bad @ [Input prompt, Exists good, Print ''Platform not supported''])"
    if "\<forall>j<length bad. stdin h j = Some (bad ! j)" "\<forall>p\<in>set bad. \<not> exists h p"
      "stdin h (length bad) = Some good" "exists h good" for bad good
  proof -
    have "while_1 h 0 [] = Some (Inr good, [] @ rejected bad @ [Input prompt, Exists good])"
      by (rule while_1_accepts) (use that in simp_all)
    with assms(1) have "eclipsedir h = Some (Inr good, rejected bad @ [Input prompt, Exists good])"
      by (simp add: eclipsedir_def)
    with s show ?thesis by simp
  qed
  have 4: "arch (system (h\<lparr>environ := e, fs := f, stdin := s\<rparr>)) =
            (Inl UnsupportedPlatform, [Print ''Platform not supported''])" for e f s
    using a by simp
  have 5: "setup_py h = Some (Inl EOFError, rejected bad @ [Input prompt])"
    if "\<forall>j<length bad. stdin h j = Some (bad ! j)" "\<forall>p\<in>set bad. \<not> exists h p"
      "stdin h (length bad) = None" for bad
  proof -
    have "while_1 h 0 [] = Some (Inl EOFError, [] @ rejected bad @ [Input prompt])"
      by (rule while_1_eof) (use that in simp_all)
    with assms(1) have "eclipsedir h = Some (Inl EOFError, rejected bad @ [Input prompt])"
      by (simp add: eclipsedir_def)
    with s show ?thesis by simp
  qed
  have 6: "setup_py h = None" if "\<forall>j. \<exists>p. stdin h j = Some p \<and> \<not> exists h p"
  proof -
    from that have "\<forall>j\<ge>0. \<exists>p. stdin h j = Some p \<and> \<not> exists h p" by simp
    then have "while_1 h 0 [] = None" by (rule while_1_forever)
    with assms(1) have "eclipsedir h = None" by (simp add: eclipsedir_def)
    with s show ?thesis by simp
  qed
  show ?thesis
  proof (intro conjI allI impI)
    fix r tr assume "setup_py h = Some (r, tr)"
    from 1 [OF this] show "\<exists>ev. tr = Input prompt # ev"
      and "r = Inl UnsupportedPlatform \<or> r = Inl EOFError" by simp_all
  next
    fix tr assume "setup_py h = Some (Inl UnsupportedPlatform, tr)"
    from 2 [OF this] show "\<exists>dir tr'. eclipsedir h = Some (Inr dir, tr') \<and> exists h dir \<and>
                       tr = tr' @ [Print ''Platform not supported'']" .
  next
    fix bad good
    assume "(\<forall>j<length bad. stdin h j = Some (bad ! j)) \<and>
            (\<forall>p\<in>set bad. \<not> exists h p) \<and> stdin h (length bad) = Some good \<and> exists h good"
    then show "setup_py h = Some (Inl UnsupportedPlatform,
              rejected bad @ [Input prompt, Exists good, Print ''Platform not supported''])"
      using 3 [of bad good] by simp
  next
    fix e f s
    show "arch (system (h\<lparr>environ := e, fs := f, stdin := s\<rparr>)) =
            (Inl UnsupportedPlatform, [Print ''Platform not supported''])" by (rule 4)
  next
    fix bad
    assume "(\<forall>j<length bad. stdin h j = Some (bad ! j)) \<and>
            (\<forall>p\<in>set bad. \<not> exists h p) \<and> stdin h (length bad) = None"
    then show "setup_py h = Some (Inl EOFError, rejected bad @ [Input prompt])"
      using 5 [of bad] by simp
  next
    assume "\<forall>j. \<exists>p. stdin h j = Some p \<and> \<not> exists h p"
    then show "setup_py h = None" by (rule 6)
  qed
qed

theorem C7_root_first_witness:
  "environ host_C7 ''ECLIPSEDIR'' = None \<and> system host_C7 = ''Darwin'' \<and>
   stdin host_C7 0 = Some ''/opt/eclipse'' \<and> exists host_C7 ''/opt/eclipse'' \<and>
   setup_py host_C7 =
     Some (Inl UnsupportedPlatform,
           [Input prompt, Exists ''/opt/eclipse'', Print ''Platform not supported'']) \<and>
   environ host_C7_closed ''ECLIPSEDIR'' = None \<and> system host_C7_closed = ''Darwin'' \<and>
   stdin host_C7_closed 0 = None \<and>
   setup_py host_C7_closed = Some (Inl EOFError, [Input prompt])"
proof -
  have e: "environ host_C7 ''ECLIPSEDIR'' = None" and s: "system host_C7 = ''Darwin''"
    by (simp_all add: host_C7_def)
  have i: "stdin host_C7 0 = Some ''/opt/eclipse''" by (simp add: host_C7_def typed_def)
  have x: "exists host_C7 ''/opt/eclipse''" by (simp add: host_C7_def exists_def)
  from C7_root_first [OF e s]
  have "(\<forall>j<length ([] :: string list). stdin host_C7 j = Some ([] ! j)) \<and>
        (\<forall>p\<in>set ([] :: string list). \<not> exists host_C7 p) \<and>
        stdin host_C7 (length ([] :: string list)) = Some ''/opt/eclipse'' \<and>
        exists host_C7 ''/opt/eclipse'' \<longrightarrow>
        setup_py host_C7 = Some (Inl UnsupportedPlatform,
          rejected [] @ [Input prompt, Exists ''/opt/eclipse'', Print ''Platform not supported''])"
    by blast
  with i x have 1: "setup_py host_C7 =
     Some (Inl UnsupportedPlatform,
           [Input prompt, Exists ''/opt/eclipse'', Print ''Platform not supported''])"
    by (simp add: rejected_def)
  have e': "environ host_C7_closed ''ECLIPSEDIR'' = None"
    and s': "system host_C7_closed = ''Darwin''"
    by (simp_all add: host_C7_closed_def)
  have i': "stdin host_C7_closed 0 = None" by (simp add: host_C7_closed_def typed_def)
  from C7_root_first [OF e' s']
  have "(\<forall>j<length ([] :: string list). stdin host_C7_closed j = Some ([] ! j)) \<and>
        (\<forall>p\<in>set ([] :: string list). \<not> exists host_C7_closed p) \<and>
        stdin host_C7_closed (length ([] :: string list)) = None \<longrightarrow>
        setup_py host_C7_closed = Some (Inl EOFError, rejected [] @ [Input prompt])"
    by blast
  with i' have 2: "setup_py host_C7_closed = Some (Inl EOFError, [Input prompt])"
    by (simp add: rejected_def)
  from e s i x 1 e' s' i' 2 show ?thesis by simp
qed


text \<open>
  \<^bold>\<open>C8.\<close> The arguments of \<^verbatim>\<open>setup\<close> are a function of the installation directory, the
  architecture tag and the module \<^verbatim>\<open>os.path\<close> alone: two runs that agree on these three
  reach \<^verbatim>\<open>setup\<close> with equal arguments, whatever their environments, file systems,
  inputs and traces are.
\<close>

theorem C8_same_inputs_same_descriptor:
  assumes "eclipsedir h = Some (Inr dir, tr)" and "eclipsedir h' = Some (Inr dir, tr')"
    and "fst (arch (system h)) = Inr a" and "fst (arch (system h')) = Inr a"
    and "os_name h = os_name h'"
  shows "\<exists>d. setup_py h = Some (Inr d, tr) \<and> setup_py h' = Some (Inr d, tr')"
  using setup_py_emits [OF assms(1) assms(3)] setup_py_emits [OF assms(2) assms(4)] assms(5)
  by simp

theorem C8_same_inputs_same_descriptor_witness:
  "eclipsedir host_C8 =
     Some (Inr ''/opt/eclipse'',
           [Input prompt, Exists ''/opt/eclips'', Print ''Invalid Path'',
            Input prompt, Exists ''/opt/eclipse'']) \<and>
   eclipsedir host_C8_env = Some (Inr ''/opt/eclipse'', []) \<and>
   fst (arch (system host_C8)) = Inr ''i386_linux'' \<and>
   fst (arch (system host_C8_env)) = Inr ''i386_linux'' \<and>
   os_name host_C8 = os_name host_C8_env \<and>
   (\<exists>d. setup_py host_C8 =
          Some (Inr d, [Input prompt, Exists ''/opt/eclips'', Print ''Invalid Path'',
                        Input prompt, Exists ''/opt/eclipse'']) \<and>
        setup_py host_C8_env = Some (Inr d, []))"
proof -
  have e: "eclipsedir host_C8_env = Some (Inr ''/opt/eclipse'', [])"
    by (simp add: eclipsedir_def host_C8_env_def)
  have a: "fst (arch (system host_C8)) = Inr ''i386_linux''"
    and a': "fst (arch (system host_C8_env)) = Inr ''i386_linux''"
    by (simp_all add: arch_def host_C8_def host_C8_env_def)
  have o: "os_name host_C8 = os_name host_C8_env" by (simp add: host_C8_def host_C8_env_def)
  from C8_same_inputs_same_descriptor [OF eclipsedir_host_C8 e a a' o]
    eclipsedir_host_C8 e a a' o
  show ?thesis by simp
qed


text \<open>
  \<^bold>\<open>C9, as stated, fails on Windows.\<close> With \<^verbatim>\<open>ECLIPSEDIR\<close> set to the empty string on a
  Windows host, \<^verbatim>\<open>ntpath.join\<close> joins with a backslash: the paths are \<^verbatim>\<open>include\<close>
  and \<^verbatim>\<open>lib\<close>, a backslash and \<^verbatim>\<open>i386_nt\<close>, not \<^verbatim>\<open>include/i386_nt\<close> and \<^verbatim>\<open>lib/i386_nt\<close>.
\<close>

theorem C9_windows_separator_counterexample:
  "environ host_C9 ''ECLIPSEDIR'' = Some '''' \<and> system host_C9 = ''Windows'' \<and>
   os_name host_C9 = Nt \<and>
   setup_py host_C9 = Some (Inr (distutils_setup (pyclp_module Nt '''' ''i386_nt'')), []) \<and>
   include_dirs (pyclp_module Nt '''' ''i386_nt'') ! 0 = ''include'' @ [CHR 0x5C] @ ''i386_nt'' \<and>
   include_dirs (pyclp_module Nt '''' ''i386_nt'') ! 0 \<noteq> ''include/i386_nt'' \<and>
   library_dirs (pyclp_module Nt '''' ''i386_nt'') ! 0 = ''lib'' @ [CHR 0x5C] @ ''i386_nt'' \<and>
   library_dirs (pyclp_module Nt '''' ''i386_nt'') ! 0 \<noteq> ''lib/i386_nt''"
proof -
  have 1: "environ host_C9 ''ECLIPSEDIR'' = Some ''''" "system host_C9 = ''Windows''"
    "os_name host_C9 = Nt" by (simp_all add: host_C9_def)
  have 2: "setup_py host_C9 = Some (Inr (distutils_setup (pyclp_module Nt '''' ''i386_nt'')), [])"
    by (simp add: setup_py_def eclipsedir_def arch_def host_C9_def)
  have 3: "include_dirs (pyclp_module Nt '''' ''i386_nt'') ! 0
             = ''include'' @ [CHR 0x5C] @ ''i386_nt''"
    by (simp add: pyclp_module_def eclise_include_path_def os_path_join_def
        ntpath_join_two_no_drive [OF relative_names(1) relative_names(4) splitdrive_Nil] sep_def)
  have 4: "library_dirs (pyclp_module Nt '''' ''i386_nt'') ! 0
             = ''lib'' @ [CHR 0x5C] @ ''i386_nt''"
    by (simp add: pyclp_module_def eclipse_lib_path_def os_path_join_def
        ntpath_join_two_no_drive [OF relative_names(2) relative_names(4) splitdrive_Nil] sep_def)
  show ?thesis by (simp only: 1 2 3 4) simp
qed


text \<open>
  \<^bold>\<open>C9, amended.\<close> With \<^verbatim>\<open>ECLIPSEDIR\<close> set to the empty string the installation
  directory is the empty string, with no prompt and no test, and the two joined paths are
  relative: \<^verbatim>\<open>include/<arch>\<close> and \<^verbatim>\<open>lib/<arch>\<close> under \<^verbatim>\<open>posixpath\<close>, the same with a
  backslash under \<^verbatim>\<open>ntpath\<close>. Whether the script prompts depends on the presence of the
  key alone: with the key present the trace is empty, with the key absent every finished
  run starts with the prompt.
\<close>

theorem C9_empty_value:
  assumes "environ h ''ECLIPSEDIR'' = Some ''''" and "fst (arch (system h)) = Inr a"
  shows "eclipsedir h = Some (Inr '''', []) \<and>
         (\<exists>d. setup_py h = Some (Inr d, []) \<and>
            include_dirs (ext_modules d ! 0) ! 0 =
              (case os_name h of Posix \<Rightarrow> ''include/'' @ a | Nt \<Rightarrow> ''include'' @ [sep] @ a) \<and>
            library_dirs (ext_modules d ! 0) ! 0 =
              (case os_name h of Posix \<Rightarrow> ''lib/'' @ a | Nt \<Rightarrow> ''lib'' @ [sep] @ a)) \<and>
         (\<forall>v g. environ g ''ECLIPSEDIR'' = Some v \<longrightarrow> eclipsedir g = Some (Inr v, [])) \<and>
         (\<forall>g r tr. environ g ''ECLIPSEDIR'' = None \<longrightarrow> eclipsedir g = Some (r, tr) \<longrightarrow>
            (\<exists>ev. tr = Input prompt # ev))"
proof -
  let ?d = "distutils_setup (pyclp_module (os_name h) '''' a)"
  note ra = arch_relative [OF assms(2)] and pa = arch_posix [OF assms(2)]
  have e: "eclipsedir h = Some (Inr '''', [])" using assms(1) by (simp add: eclipsedir_def)
  have s: "setup_py h = Some (Inr ?d, [])" by (rule setup_py_emits [OF e assms(2)])
  have i: "include_dirs (ext_modules ?d ! 0) ! 0 =
              (case os_name h of Posix \<Rightarrow> ''include/'' @ a | Nt \<Rightarrow> ''include'' @ [sep] @ a)"
    using pa
    by (cases "os_name h")
      (simp_all add: dirs_of_setup os_path_join_def posixpath_join_two
        ntpath_join_two_no_drive [OF relative_names(1) ra splitdrive_Nil])
  have l: "library_dirs (ext_modules ?d ! 0) ! 0 =
              (case os_name h of Posix \<Rightarrow> ''lib/'' @ a | Nt \<Rightarrow> ''lib'' @ [sep] @ a)"
    using pa
    by (cases "os_name h")
      (simp_all add: dirs_of_setup os_path_join_def posixpath_join_two
        ntpath_join_two_no_drive [OF relative_names(2) ra splitdrive_Nil])
  have p: "eclipsedir g = Some (Inr v, [])" if "environ g ''ECLIPSEDIR'' = Some v" for g v
    using that by (simp add: eclipsedir_def)
  have q: "\<exists>ev. tr = Input prompt # ev"
    if "environ g ''ECLIPSEDIR'' = None" "eclipsedir g = Some (r, tr)" for g r tr
    using eclipsedir_Some [OF that(2)] that(1) by simp
  from s i l have "\<exists>d. setup_py h = Some (Inr d, []) \<and>
            include_dirs (ext_modules d ! 0) ! 0 =
              (case os_name h of Posix \<Rightarrow> ''include/'' @ a | Nt \<Rightarrow> ''include'' @ [sep] @ a) \<and>
            library_dirs (ext_modules d ! 0) ! 0 =
              (case os_name h of Posix \<Rightarrow> ''lib/'' @ a | Nt \<Rightarrow> ''lib'' @ [sep] @ a)"
    by (intro exI [of _ ?d] conjI)
  with e p q show ?thesis by (intro conjI allI impI) (assumption | simp)+
qed

theorem C9_empty_value_witness:
  "environ host_C9w ''ECLIPSEDIR'' = Some '''' \<and>
   fst (arch (system host_C9w)) = Inr ''i386_linux'' \<and> os_name host_C9w = Posix \<and>
   eclipsedir host_C9w = Some (Inr '''', []) \<and>
   (\<exists>d. setup_py host_C9w = Some (Inr d, []) \<and>
        include_dirs (ext_modules d ! 0) ! 0 = ''include/i386_linux'' \<and>
        library_dirs (ext_modules d ! 0) ! 0 = ''lib/i386_linux'')"
proof -
  have e: "environ host_C9w ''ECLIPSEDIR'' = Some ''''" by (simp add: host_C9w_def)
  have a: "fst (arch (system host_C9w)) = Inr ''i386_linux''"
    by (simp add: arch_def host_C9w_def)
  have o: "os_name host_C9w = Posix" by (simp add: host_C9w_def)
  from C9_empty_value [OF e a] o e a show ?thesis by simp
qed


text \<open>
  \<^bold>\<open>C10.\<close> The loop returns the first typed path that leads to a file-system entry of any
  kind, a regular file as well as a directory, absolute or relative. The trace shows all
  the script asks the file system: one \<^verbatim>\<open>os.path.exists\<close> on each typed string, and nothing
  about the kind of the entry or about what lies under it. In the witness the operator
  types the relative name of a regular file, and no include or library directory exists.
\<close>

theorem C10_any_entry:
  assumes "environ h ''ECLIPSEDIR'' = None"
    and "\<forall>j<length bad. stdin h j = Some (bad ! j)"
    and "\<forall>p\<in>set bad. fs h p = None"
    and "stdin h (length bad) = Some path"
    and "fs h path = Some kind"
  shows "eclipsedir h = Some (Inr path, rejected bad @ [Input prompt, Exists path])"
proof -
  have "while_1 h 0 [] = Some (Inr path, [] @ rejected bad @ [Input prompt, Exists path])"
    by (rule while_1_accepts) (use assms in \<open>simp_all add: exists_def\<close>)
  with assms(1) show ?thesis by (simp add: eclipsedir_def)
qed

theorem C10_any_entry_witness:
  "environ host_C10 ''ECLIPSEDIR'' = None \<and> stdin host_C10 0 = Some ''setup.py'' \<and>
   fs host_C10 ''setup.py'' = Some File \<and>
   fs host_C10 ''setup.py/include/i386_linux'' = None \<and>
   fs host_C10 ''setup.py/lib/i386_linux'' = None \<and>
   eclipsedir host_C10 = Some (Inr ''setup.py'', [Input prompt, Exists ''setup.py''])"
proof -
  have e: "environ host_C10 ''ECLIPSEDIR'' = None" by (simp add: host_C10_def)
  have b: "\<forall>j<length ([] :: string list). stdin host_C10 j = Some ([] ! j)" by simp
  have n: "\<forall>p\<in>set ([] :: string list). fs host_C10 p = None" by simp
  have g: "stdin host_C10 (length ([] :: string list)) = Some ''setup.py''"
    by (simp add: host_C10_def typed_def)
  have k: "fs host_C10 ''setup.py'' = Some File" by (simp add: host_C10_def)
  have o: "fs host_C10 ''setup.py/include/i386_linux'' = None"
    "fs host_C10 ''setup.py/lib/i386_linux'' = None" by (simp_all add: host_C10_def)
  from C10_any_entry [OF e b n g k] e g k o show ?thesis by (simp add: rejected_def)
qed


end
